theory Spec2Isabelle
  imports Complex_Main "HOL-Library.Stream"
begin

section \<open>The starfield generator of the animated Earth scene\<close>

text \<open>
  The development embeds \<^verbatim>\<open>src/stars/getStarfield.js\<close> and the starfield section of
  \<^verbatim>\<open>src/main.js\<close> (lines 129 to 133).

  Conventions of the embedding.
  \<^item> A JavaScript number that holds a coordinate, an angle or a radius is a \<^typ>\<open>real\<close>:
    the arithmetic is exact, \<^verbatim>\<open>Math.sin\<close>, \<^verbatim>\<open>Math.cos\<close>, \<^verbatim>\<open>Math.acos\<close> and
    \<^verbatim>\<open>Math.PI\<close> are \<^term>\<open>sin\<close>, \<^term>\<open>cos\<close>, \<^term>\<open>arccos\<close> and \<^term>\<open>pi\<close>, and the
    rounding of IEEE doubles and of the 32-bit cells of a \<^verbatim>\<open>Float32Array\<close> is left out.
  \<^item> \<^verbatim>\<open>numStars\<close> is an \<^typ>\<open>int\<close> (the count is an integer, possibly negative).
  \<^item> \<^verbatim>\<open>Math.random\<close> reads an ambient source. The source is a component of the program
    state: the stream of the draws still to come. Each call takes the head of the stream.
  \<^item> Typed arrays live on a heap, a list of buffers addressed by position, so that two
    calls of the generator can be asked whether they share a buffer.
  \<^item> Memory is unbounded: an allocation of a non-negative length succeeds.
\<close>

subsection \<open>Program state\<close>

type_synonym addr = nat

record js_state =
  draws :: "real stream"
  heap :: "real list list"

datatype error = RangeError

text \<open>\<^verbatim>\<open>Math.random()\<close>: the next draw of the ambient source, which moves on by one.\<close>

definition Math_random :: "js_state \<Rightarrow> real \<times> js_state" where
  "Math_random s = (shd (draws s), s\<lparr>draws := stl (draws s)\<rparr>)"

text \<open>
  \<^verbatim>\<open>new Float32Array(len)\<close>: a negative length is a \<^verbatim>\<open>RangeError\<close>; otherwise a fresh
  buffer of \<open>len\<close> zeros is put on the heap and its address returned.
\<close>

definition new_Float32Array :: "int \<Rightarrow> js_state \<Rightarrow> error + (addr \<times> js_state)" where
  "new_Float32Array len s =
     (if len < 0 then Inl RangeError
      else Inr (length (heap s), s\<lparr>heap := heap s @ [replicate (nat len) 0]\<rparr>))"

text \<open>
  \<^verbatim>\<open>a[k] = v\<close> on a typed array: a write inside the buffer replaces the cell, a write
  outside it is dropped.
\<close>

definition array_set :: "addr \<Rightarrow> nat \<Rightarrow> real \<Rightarrow> js_state \<Rightarrow> js_state" where
  "array_set a k v s =
     (if a < length (heap s) then s\<lparr>heap := (heap s)[a := (heap s ! a)[k := v]]\<rparr> else s)"

text \<open>The contents of the buffer at an address (no buffer: no cells).\<close>

definition buffer_at :: "js_state \<Rightarrow> addr \<Rightarrow> real list" where
  "buffer_at s a = (if a < length (heap s) then heap s ! a else [])"

subsection \<open>The objects of the rendering library that the generator builds\<close>

record BufferAttribute =
  attr_array :: addr
  attr_itemSize :: nat

record PointsMaterial =
  mat_color :: nat
  mat_size :: real
  mat_sizeAttenuation :: bool

record Points =
  geometry_position :: BufferAttribute
  material :: PointsMaterial

text \<open>
  A buffer attribute of item size 3 is read as a sequence of points: point \<open>i\<close> has its
  coordinates in the cells \<open>3 * i\<close>, \<open>3 * i + 1\<close> and \<open>3 * i + 2\<close>.
\<close>

definition cloud_points :: "real list \<Rightarrow> (real \<times> real \<times> real) list" where
  "cloud_points buf =
     map (\<lambda>i. (buf ! (3 * i), buf ! (3 * i + 1), buf ! (3 * i + 2))) [0..<length buf div 3]"

definition star_cloud :: "js_state \<Rightarrow> Points \<Rightarrow> (real \<times> real \<times> real) list" where
  "star_cloud s p = cloud_points (buffer_at s (attr_array (geometry_position p)))"

text \<open>The Euclidean distance of a point from the origin.\<close>

fun origin_distance :: "real \<times> real \<times> real \<Rightarrow> real" where
  "origin_distance (x, y, z) = sqrt (x\<^sup>2 + y\<^sup>2 + z\<^sup>2)"

subsection \<open>\<^verbatim>\<open>getStarfield\<close>\<close>

text \<open>
  Lines 30 to 36: the position of one star from its three draws, taken in the order
  azimuth, polar angle, depth.
\<close>

definition star_xyz :: "real \<Rightarrow> real \<Rightarrow> real \<Rightarrow> real \<Rightarrow> real \<times> real \<times> real" where
  "star_xyz radius r1 r2 r3 =
     (let theta = r1 * 2 * pi;
          phi = arccos (2 * r2 - 1);
          distance = radius * (0.8 + 0.2 * r3);
          x = distance * sin phi * cos theta;
          y = distance * sin phi * sin theta;
          z = distance * cos phi
      in (x, y, z))"

text \<open>Lines 30 to 40: one pass of the loop body for the index \<open>i\<close>.\<close>

definition star_iteration :: "real \<Rightarrow> addr \<Rightarrow> nat \<Rightarrow> js_state \<Rightarrow> js_state" where
  "star_iteration radius starPositions i s =
     (let (r1, s1) = Math_random s;
          (r2, s2) = Math_random s1;
          (r3, s3) = Math_random s2;
          (x, y, z) = star_xyz radius r1 r2 r3;
          s4 = array_set starPositions (i * 3) x s3;
          s5 = array_set starPositions (i * 3 + 1) y s4;
          s6 = array_set starPositions (i * 3 + 2) z s5
      in s6)"

text \<open>Line 29: \<^verbatim>\<open>for (let i = 0; i < numStars; i++)\<close>, entered at index \<open>i\<close>.\<close>

function for_loop :: "int \<Rightarrow> real \<Rightarrow> addr \<Rightarrow> nat \<Rightarrow> js_state \<Rightarrow> js_state" where
  "for_loop numStars radius starPositions i s =
     (if int i < numStars
      then for_loop numStars radius starPositions (i + 1)
             (star_iteration radius starPositions i s)
      else s)"
  by pat_completeness auto
termination
  by (relation "measure (\<lambda>(numStars, radius, starPositions, i, s). nat (numStars - int i))") auto

text \<open>
  The argument of the call: \<^verbatim>\<open>{ numStars = 10, radius = 25 } = {}\<close>. The object may be
  absent, and each field may be absent; an absent value is \<open>None\<close>.
\<close>

record starfield_args =
  numStars_arg :: "int option"
  radius_arg :: "real option"

definition getStarfield :: "starfield_args option \<Rightarrow> js_state \<Rightarrow> error + (Points \<times> js_state)" where
  "getStarfield arg s =
     (let obj = (case arg of None \<Rightarrow> \<lparr>numStars_arg = None, radius_arg = None\<rparr> | Some a \<Rightarrow> a);
          numStars = (case numStars_arg obj of None \<Rightarrow> 10 | Some n \<Rightarrow> n);
          radius = (case radius_arg obj of None \<Rightarrow> 25 | Some r \<Rightarrow> r)
      in case new_Float32Array (numStars * 3) s of
           Inl e \<Rightarrow> Inl e
         | Inr (starPositions, s1) \<Rightarrow>
             let s2 = for_loop numStars radius starPositions 0 s1;
                 starMaterial = \<lparr>mat_color = 0xffffff, mat_size = 0.01, mat_sizeAttenuation = True\<rparr>
             in Inr (\<lparr>geometry_position = \<lparr>attr_array = starPositions, attr_itemSize = 3\<rparr>,
                      material = starMaterial\<rparr>, s2))"

text \<open>The call with both fields given, as \<^verbatim>\<open>main.js\<close> writes it.\<close>

abbreviation starfield_of :: "int \<Rightarrow> real \<Rightarrow> starfield_args option" where
  "starfield_of n r \<equiv> Some \<lparr>numStars_arg = Some n, radius_arg = Some r\<rparr>"

subsection \<open>The starfield section of \<^verbatim>\<open>main.js\<close>\<close>

text \<open>
  Lines 129 to 133: three layers, generated one after the other, are added to the group
  of stars. An exception of a call ends the program.
\<close>

definition main_stars :: "js_state \<Rightarrow> error + (Points list \<times> js_state)" where
  "main_stars s =
     (let stars = 500 in
      case getStarfield (starfield_of stars 500) s of
        Inl e \<Rightarrow> Inl e
      | Inr (starsX_Low, s1) \<Rightarrow>
          (case getStarfield (starfield_of stars 750) s1 of
             Inl e \<Rightarrow> Inl e
           | Inr (starsX_Med, s2) \<Rightarrow>
               (case getStarfield (starfield_of stars 1000) s2 of
                  Inl e \<Rightarrow> Inl e
                | Inr (starsX_High, s3) \<Rightarrow> Inr ([starsX_Low, starsX_Med, starsX_High], s3))))"

subsection \<open>Notions used to state the properties\<close>

text \<open>The contract of \<^verbatim>\<open>Math.random\<close>: every draw lies in \<open>[0, 1)\<close>.\<close>

definition uniform_draws :: "real stream \<Rightarrow> bool" where
  "uniform_draws rng = (\<forall>u \<in> sset rng. 0 \<le> u \<and> u < 1)"

text \<open>
  The point cloud a call returns, read from the buffer of the returned object in the
  state the call leaves, or the exception of the call.
\<close>

definition starfield_points ::
    "starfield_args option \<Rightarrow> js_state \<Rightarrow> error + (real \<times> real \<times> real) list" where
  "starfield_points arg s =
     (case getStarfield arg s of Inl e \<Rightarrow> Inl e | Inr (p, s') \<Rightarrow> Inr (star_cloud s' p))"

text \<open>
  The star of pass \<open>k\<close> of the loop, when the loop is entered with the source \<open>rng\<close>:
  pass \<open>k\<close> takes the draws \<open>3 * k\<close>, \<open>3 * k + 1\<close> and \<open>3 * k + 2\<close>, in this order.
\<close>

definition generated_star :: "real \<Rightarrow> real stream \<Rightarrow> nat \<Rightarrow> real \<times> real \<times> real" where
  "generated_star radius rng k =
     star_xyz radius (rng !! (3 * k)) (rng !! (3 * k + 1)) (rng !! (3 * k + 2))"

text \<open>The cell \<open>j\<close> of the buffer the loop fills, and the whole buffer of \<open>n\<close> stars.\<close>

definition star_cell :: "real \<Rightarrow> real stream \<Rightarrow> nat \<Rightarrow> real" where
  "star_cell radius rng j =
     (case generated_star radius rng (j div 3) of
        (x, y, z) \<Rightarrow> if j mod 3 = 0 then x else if j mod 3 = 1 then y else z)"

definition starfield_buffer :: "real \<Rightarrow> real stream \<Rightarrow> nat \<Rightarrow> real list" where
  "starfield_buffer radius rng n = map (star_cell radius rng) [0..<3 * n]"

text \<open>The object \<^verbatim>\<open>getStarfield\<close> returns for a buffer at the address \<open>a\<close>.\<close>

definition starfield_object :: "addr \<Rightarrow> Points" where
  "starfield_object a =
     \<lparr>geometry_position = \<lparr>attr_array = a, attr_itemSize = 3\<rparr>,
      material = \<lparr>mat_color = 0xffffff, mat_size = 0.01, mat_sizeAttenuation = True\<rparr>\<rparr>"

text \<open>The reflection of a point through the origin.\<close>

fun mirror :: "real \<times> real \<times> real \<Rightarrow> real \<times> real \<times> real" where
  "mirror (x, y, z) = (- x, - y, - z)"

text \<open>
  The polar angle of a point (the angle between the point and the positive \<open>z\<close> axis),
  and the share of the area of a sphere that lies between two polar angles: half the
  difference of their cosines.
\<close>

fun polar_angle_of :: "real \<times> real \<times> real \<Rightarrow> real" where
  "polar_angle_of (x, y, z) = arccos (z / origin_distance (x, y, z))"

definition band_area_fraction :: "real \<Rightarrow> real \<Rightarrow> real" where
  "band_area_fraction lo hi = (cos lo - cos hi) / 2"

text \<open>
  The share of the points of a cloud whose polar angle lies in a band, and the share of
  the first \<open>N\<close> stars of a source whose second draw lies in an interval. An empty sample
  has the share 0.
\<close>

definition band_share :: "real \<Rightarrow> real \<Rightarrow> (real \<times> real \<times> real) list \<Rightarrow> real" where
  "band_share lo hi pts =
     (if pts = [] then 0
      else real (length (filter (\<lambda>pt. lo \<le> polar_angle_of pt \<and> polar_angle_of pt \<le> hi) pts))
           / real (length pts))"

definition draw_share :: "real \<Rightarrow> real \<Rightarrow> real stream \<Rightarrow> nat \<Rightarrow> real" where
  "draw_share a b rng N =
     (if N = 0 then 0
      else real (length (filter (\<lambda>k. a \<le> rng !! (3 * k + 1) \<and> rng !! (3 * k + 1) \<le> b) [0..<N]))
           / real N)"

text \<open>The sample of \<open>N\<close> stars: the cloud the call with \<open>numStars = N\<close> returns.\<close>

definition sample_points :: "real \<Rightarrow> js_state \<Rightarrow> nat \<Rightarrow> (real \<times> real \<times> real) list" where
  "sample_points r s N =
     (case starfield_points (starfield_of (int N) r) s of Inl e \<Rightarrow> [] | Inr pts \<Rightarrow> pts)"

text \<open>
  A source for a run on a concrete input: the three draws of a star are \<open>1/4\<close> for the
  stars of even index and \<open>3/4\<close> for the others.
\<close>

definition alternating :: "real stream" where
  "alternating = smap (\<lambda>j. if even (j div 3) then 1 / 4 else 3 / 4) nats"

text \<open>
  A state to run the generator on: every draw of the source is \<open>1/2\<close>, and the heap is
  empty.
\<close>

definition fixture :: js_state where
  "fixture = \<lparr>draws = sconst (1 / 2), heap = []\<rparr>"

section \<open>The loop and the buffer it fills\<close>

declare for_loop.simps [simp del]

lemma for_loop_step:
  "int i < n \<Longrightarrow> for_loop n r a i s = for_loop n r a (Suc i) (star_iteration r a i s)"
  by (subst for_loop.simps) simp

lemma for_loop_done: "\<not> int i < n \<Longrightarrow> for_loop n r a i s = s"
  by (subst for_loop.simps) simp

lemma star_iteration_draws:
  "draws (star_iteration r a i s) = sdrop 3 (draws s)"
  by (simp add: star_iteration_def Math_random_def array_set_def Let_def eval_nat_numeral split: prod.splits)

lemma star_iteration_heap:
  "a < length (heap s) \<Longrightarrow>
   heap (star_iteration r a i s) =
     (case star_xyz r (draws s !! 0) (draws s !! 1) (draws s !! 2) of
        (x, y, z) \<Rightarrow> (heap s)[a := (heap s ! a)[i * 3 := x, i * 3 + 1 := y, i * 3 + 2 := z]])"
  by (simp add: star_iteration_def Math_random_def array_set_def Let_def eval_nat_numeral split: prod.splits)

lemma star_iteration_heap_length:
  "length (heap (star_iteration r a i s)) = length (heap s)"
  by (simp add: star_iteration_def Math_random_def array_set_def Let_def split: prod.splits)

lemma star_iteration_other:
  "b \<noteq> a \<Longrightarrow> heap (star_iteration r a i s) ! b = heap s ! b"
  by (simp add: star_iteration_def Math_random_def array_set_def Let_def split: prod.splits)

lemma star_iteration_buffer_length:
  "length (heap (star_iteration r a i s) ! a) = length (heap s ! a)"
  by (simp add: star_iteration_def Math_random_def array_set_def Let_def split: prod.splits)

lemma star_iteration_cell:
  "j \<noteq> i * 3 \<Longrightarrow> j \<noteq> i * 3 + 1 \<Longrightarrow> j \<noteq> i * 3 + 2 \<Longrightarrow>
   heap (star_iteration r a i s) ! a ! j = heap s ! a ! j"
  by (simp add: star_iteration_def Math_random_def array_set_def Let_def split: prod.splits)


lemma for_loop_draws:
  "draws (for_loop n r a i s) = sdrop (3 * (nat n - i)) (draws s)"
proof (induction n r a i s rule: for_loop.induct)
  case (1 n r a i s)
  show ?case
  proof (cases "int i < n")
    case True
    then have "3 + 3 * (nat n - (i + 1)) = 3 * (nat n - i)" by linarith
    with True 1 show ?thesis
      by (subst for_loop.simps) (simp add: star_iteration_draws)
  next
    case False
    then show ?thesis by (subst for_loop.simps) simp
  qed
qed

lemma for_loop_heap_length:
  "length (heap (for_loop n r a i s)) = length (heap s)"
proof (induction n r a i s rule: for_loop.induct)
  case (1 n r a i s)
  then show ?case
    by (subst for_loop.simps) (simp add: star_iteration_heap_length)
qed

lemma for_loop_other:
  "b \<noteq> a \<Longrightarrow> heap (for_loop n r a i s) ! b = heap s ! b"
proof (induction n r a i s rule: for_loop.induct)
  case (1 n r a i s)
  then show ?case
    by (subst for_loop.simps) (simp add: star_iteration_other)
qed

lemma for_loop_buffer_length:
  "length (heap (for_loop n r a i s) ! a) = length (heap s ! a)"
proof (induction n r a i s rule: for_loop.induct)
  case (1 n r a i s)
  then show ?case
    by (subst for_loop.simps) (simp add: star_iteration_buffer_length)
qed

lemma for_loop_before:
  "j < i * 3 \<Longrightarrow> heap (for_loop n r a i s) ! a ! j = heap s ! a ! j"
proof (induction n r a i s rule: for_loop.induct)
  case (1 n r a i s)
  show ?case
  proof (cases "int i < n")
    case True
    have "heap (for_loop n r a (i + 1) (star_iteration r a i s)) ! a ! j
            = heap (star_iteration r a i s) ! a ! j"
      using True 1 by simp
    also have "\<dots> = heap s ! a ! j"
      using "1.prems" by (simp add: star_iteration_cell)
    finally show ?thesis using True by (subst for_loop.simps) simp
  next
    case False
    then show ?thesis by (subst for_loop.simps) simp
  qed
qed

lemma for_loop_star:
  "a < length (heap s) \<Longrightarrow> i \<le> k \<Longrightarrow> int k < n \<Longrightarrow> k * 3 + 2 < length (heap s ! a) \<Longrightarrow>
   (heap (for_loop n r a i s) ! a ! (k * 3),
    heap (for_loop n r a i s) ! a ! (k * 3 + 1),
    heap (for_loop n r a i s) ! a ! (k * 3 + 2))
   = star_xyz r (draws s !! (3 * (k - i))) (draws s !! (3 * (k - i) + 1)) (draws s !! (3 * (k - i) + 2))"
proof (induction n r a i s rule: for_loop.induct)
  case (1 n r a i s)
  let ?s' = "star_iteration r a i s"
  from "1.prems" have lt: "int i < n" by linarith
  then have unfold: "for_loop n r a i s = for_loop n r a (i + 1) ?s'"
    by (subst for_loop.simps) simp
  show ?case
  proof (cases "i = k")
    case True
    obtain x y z where xyz: "star_xyz r (draws s !! 0) (draws s !! 1) (draws s !! 2) = (x, y, z)"
      by (metis prod_cases3)
    have "heap ?s' ! a = (heap s ! a)[i * 3 := x, i * 3 + 1 := y, i * 3 + 2 := z]"
      using "1.prems"(1) xyz by (simp add: star_iteration_heap)
    then have cells: "heap ?s' ! a ! (i * 3) = x" "heap ?s' ! a ! (i * 3 + 1) = y"
        "heap ?s' ! a ! (i * 3 + 2) = z"
      using "1.prems"(4) True by simp_all
    have "heap (for_loop n r a (i + 1) ?s') ! a ! (i * 3) = x"
        "heap (for_loop n r a (i + 1) ?s') ! a ! (i * 3 + 1) = y"
        "heap (for_loop n r a (i + 1) ?s') ! a ! (i * 3 + 2) = z"
      using cells by (simp_all add: for_loop_before)
    then show ?thesis using True xyz unfold by (simp add: numeral_2_eq_2)
  next
    case False
    with "1.prems" have le: "i + 1 \<le> k" by simp
    have idx: "3 + 3 * (k - (i + 1)) = 3 * (k - i)" using le by linarith
    have "(heap (for_loop n r a (i + 1) ?s') ! a ! (k * 3),
           heap (for_loop n r a (i + 1) ?s') ! a ! (k * 3 + 1),
           heap (for_loop n r a (i + 1) ?s') ! a ! (k * 3 + 2))
          = star_xyz r (draws ?s' !! (3 * (k - (i + 1)))) (draws ?s' !! (3 * (k - (i + 1)) + 1))
              (draws ?s' !! (3 * (k - (i + 1)) + 2))"
      using "1.IH"[OF lt _ le "1.prems"(3)] "1.prems"(1,4)
      by (simp add: star_iteration_heap_length star_iteration_buffer_length)
    moreover have "draws ?s' !! (3 * (k - (i + 1)) + m) = draws s !! (3 * (k - i) + m)" for m
      using idx by (simp add: star_iteration_draws sdrop_snth add.assoc[symmetric])
    ultimately show ?thesis using unfold
      by (metis add.right_neutral)
  qed
qed


lemma for_loop_heap:
  "heap (for_loop n r a i s) = (heap s)[a := heap (for_loop n r a i s) ! a]"
proof (rule nth_equalityI)
  show "length (heap (for_loop n r a i s)) = length ((heap s)[a := heap (for_loop n r a i s) ! a])"
    by (simp add: for_loop_heap_length)
next
  fix b assume "b < length (heap (for_loop n r a i s))"
  then have b: "b < length (heap s)" by (simp add: for_loop_heap_length)
  show "heap (for_loop n r a i s) ! b = (heap s)[a := heap (for_loop n r a i s) ! a] ! b"
  proof (cases "b = a")
    case True
    with b show ?thesis by simp
  next
    case False
    then show ?thesis by (simp add: for_loop_other)
  qed
qed

lemma for_loop_cell:
  assumes a: "a < length (heap s)" and j: "j < length (heap s ! a)" "j < 3 * nat n"
    and len: "length (heap s ! a) = 3 * nat n"
  shows "heap (for_loop n r a 0 s) ! a ! j = star_cell r (draws s) j"
proof -
  define k where "k = j div 3"
  have "j' < 3 * m \<Longrightarrow> j' div 3 < m" for j' m :: nat by presburger
  then have "k < nat n" using j(2) unfolding k_def by blast
  then have kn: "int k < n" by linarith
  have "j' < 3 * m \<Longrightarrow> j' div 3 * 3 + 2 < 3 * m" for j' m :: nat by presburger
  then have "j div 3 * 3 + 2 < 3 * nat n" using j(2) by blast
  then have fit: "k * 3 + 2 < length (heap s ! a)" by (simp add: len k_def)
  have star: "(heap (for_loop n r a 0 s) ! a ! (k * 3),
      heap (for_loop n r a 0 s) ! a ! (k * 3 + 1),
      heap (for_loop n r a 0 s) ! a ! (k * 3 + 2)) = generated_star r (draws s) k"
    using for_loop_star[OF a _ kn fit, of 0 r] by (simp add: generated_star_def)
  obtain x y z where g: "generated_star r (draws s) k = (x, y, z)"
    by (metis prod_cases3)
  with star have c: "heap (for_loop n r a 0 s) ! a ! (k * 3) = x"
      "heap (for_loop n r a 0 s) ! a ! (k * 3 + 1) = y"
      "heap (for_loop n r a 0 s) ! a ! (k * 3 + 2) = z"
    by simp_all
  consider "j = k * 3" | "j = k * 3 + 1" | "j = k * 3 + 2"
    unfolding k_def by linarith
  then show ?thesis
  proof cases
    case 1
    then have "j mod 3 = 0" "j div 3 = k" by presburger+
    with c(1) 1 g show ?thesis by (simp add: star_cell_def)
  next
    case 2
    then have "j mod 3 = 1" "j div 3 = k" by presburger+
    with c(2) 2 g show ?thesis by (simp add: star_cell_def)
  next
    case 3
    then have "j mod 3 = 2" "j div 3 = k" by presburger+
    with c(3) 3 g show ?thesis by (simp add: star_cell_def)
  qed
qed

lemma for_loop_buffer:
  assumes a: "a < length (heap s)" and len: "length (heap s ! a) = 3 * nat n"
  shows "heap (for_loop n r a 0 s) ! a = starfield_buffer r (draws s) (nat n)"
proof (rule nth_equalityI)
  show "length (heap (for_loop n r a 0 s) ! a) = length (starfield_buffer r (draws s) (nat n))"
    by (simp add: for_loop_buffer_length len starfield_buffer_def)
next
  fix j assume "j < length (heap (for_loop n r a 0 s) ! a)"
  then have j: "j < 3 * nat n" by (simp add: for_loop_buffer_length len)
  then show "heap (for_loop n r a 0 s) ! a ! j = starfield_buffer r (draws s) (nat n) ! j"
    using for_loop_cell[OF a _ j len] len by (simp add: starfield_buffer_def)
qed

lemma getStarfield_run:
  "getStarfield (starfield_of n r) s =
     (if n < 0 then Inl RangeError
      else Inr (starfield_object (length (heap s)),
                \<lparr>draws = sdrop (3 * nat n) (draws s),
                 heap = heap s @ [starfield_buffer r (draws s) (nat n)]\<rparr>))"
proof (cases "n < 0")
  case True
  then show ?thesis by (simp add: getStarfield_def new_Float32Array_def)
next
  case False
  let ?a = "length (heap s)"
  let ?s1 = "s\<lparr>heap := heap s @ [replicate (nat (n * 3)) 0]\<rparr>"
  let ?s2 = "for_loop n r ?a 0 ?s1"
  have len: "length (heap ?s1 ! ?a) = 3 * nat n" using False by (simp add: nat_mult_distrib)
  have a: "?a < length (heap ?s1)" by simp
  have "heap ?s2 = (heap ?s1)[?a := starfield_buffer r (draws ?s1) (nat n)]"
    using for_loop_heap[of n r ?a 0 ?s1] for_loop_buffer[OF a len] by simp
  then have h: "heap ?s2 = heap s @ [starfield_buffer r (draws s) (nat n)]" by simp
  have d: "draws ?s2 = sdrop (3 * nat n) (draws s)" by (simp add: for_loop_draws)
  have "?s2 = \<lparr>draws = sdrop (3 * nat n) (draws s),
                 heap = heap s @ [starfield_buffer r (draws s) (nat n)]\<rparr>"
    using h d by simp
  then show ?thesis using False
    by (simp add: getStarfield_def new_Float32Array_def starfield_object_def)
qed

lemma cloud_points_buffer:
  "cloud_points (starfield_buffer r rng n) = map (generated_star r rng) [0..<n]"
proof (rule nth_equalityI)
  show "length (cloud_points (starfield_buffer r rng n)) = length (map (generated_star r rng) [0..<n])"
    by (simp add: cloud_points_def starfield_buffer_def)
next
  fix i assume "i < length (cloud_points (starfield_buffer r rng n))"
  then have i: "i < n" by (simp add: cloud_points_def starfield_buffer_def)
  have m: "(3 * i) mod 3 = 0" "(3 * i + 1) mod 3 = 1" "(3 * i + 2) mod 3 = 2"
    "(3 * i) div 3 = i" "(3 * i + 1) div 3 = i" "(3 * i + 2) div 3 = i"
    by presburger+
  show "cloud_points (starfield_buffer r rng n) ! i = map (generated_star r rng) [0..<n] ! i"
    using i m by (simp add: cloud_points_def starfield_buffer_def star_cell_def split: prod.splits)
qed



section \<open>The geometry of one star\<close>

lemma star_xyz_distance:
  "origin_distance (star_xyz r u1 u2 u3) = \<bar>r * (0.8 + 0.2 * u3)\<bar>"
proof -
  define d where "d = r * (0.8 + 0.2 * u3)"
  define phi where "phi = arccos (2 * u2 - 1)"
  define theta where "theta = u1 * 2 * pi"
  have "(d * sin phi * cos theta)\<^sup>2 + (d * sin phi * sin theta)\<^sup>2 + (d * cos phi)\<^sup>2
      = d\<^sup>2 * ((sin phi)\<^sup>2 * ((cos theta)\<^sup>2 + (sin theta)\<^sup>2) + (cos phi)\<^sup>2)"
    by algebra
  also have "\<dots> = d\<^sup>2 * ((sin phi)\<^sup>2 * 1 + (cos phi)\<^sup>2)"
    by (simp only: cos_squared_eq) simp
  also have "\<dots> = d\<^sup>2" by simp
  finally have "sqrt ((d * sin phi * cos theta)\<^sup>2 + (d * sin phi * sin theta)\<^sup>2 + (d * cos phi)\<^sup>2) = \<bar>d\<bar>"
    by simp
  then show ?thesis
    by (simp add: star_xyz_def Let_def d_def phi_def theta_def)
qed

lemma star_xyz_mirror: "star_xyz (- r) u1 u2 u3 = mirror (star_xyz r u1 u2 u3)"
  by (simp add: star_xyz_def Let_def)

lemma star_xyz_zero: "star_xyz 0 u1 u2 u3 = (0, 0, 0)"
  by (simp add: star_xyz_def Let_def)

lemma jitter_band:
  fixes u r :: real
  assumes "0 \<le> u" "u < 1"
  shows "0.8 * \<bar>r\<bar> \<le> \<bar>r * (0.8 + 0.2 * u)\<bar>" and "\<bar>r * (0.8 + 0.2 * u)\<bar> \<le> \<bar>r\<bar>"
    and "r \<noteq> 0 \<Longrightarrow> \<bar>r * (0.8 + 0.2 * u)\<bar> < \<bar>r\<bar>"
proof -
  have pos: "0 < 0.8 + 0.2 * u" using assms by simp
  have eq: "\<bar>r * (0.8 + 0.2 * u)\<bar> = \<bar>r\<bar> * (0.8 + 0.2 * u)"
    using pos by (simp add: abs_mult)
  have lo: "0.8 \<le> 0.8 + 0.2 * u" using assms by simp
  have hi: "0.8 + 0.2 * u < 1" using assms by simp
  show "0.8 * \<bar>r\<bar> \<le> \<bar>r * (0.8 + 0.2 * u)\<bar>"
    unfolding eq using lo mult_left_mono[OF lo abs_ge_zero[of r]] by (simp add: mult.commute)
  show "\<bar>r * (0.8 + 0.2 * u)\<bar> \<le> \<bar>r\<bar>"
    unfolding eq using hi mult_left_mono[of "0.8 + 0.2 * u" 1 "\<bar>r\<bar>"] by simp
  show "\<bar>r * (0.8 + 0.2 * u)\<bar> < \<bar>r\<bar>" if "r \<noteq> 0"
    unfolding eq using hi that mult_strict_left_mono[of "0.8 + 0.2 * u" 1 "\<bar>r\<bar>"] by simp
qed

text \<open>The polar angle: its cosine is linear in the draw, and its sine is not negative.\<close>

lemma polar_angle:
  fixes u :: real
  assumes "0 \<le> u" "u < 1"
  shows "cos (arccos (2 * u - 1)) = 2 * u - 1" and "0 \<le> sin (arccos (2 * u - 1))"
    and "0 < arccos (2 * u - 1)" and "arccos (2 * u - 1) \<le> pi"
proof -
  have b: "- 1 \<le> 2 * u - 1" "2 * u - 1 < 1" using assms by simp_all
  show "cos (arccos (2 * u - 1)) = 2 * u - 1" using b by (simp add: cos_arccos)
  show "0 \<le> sin (arccos (2 * u - 1))" using b by (simp add: arccos_lbound arccos_ubound sin_ge_zero)
  have "arccos (2 * u - 1) \<noteq> 0"
  proof
    assume "arccos (2 * u - 1) = 0"
    then have "cos (arccos (2 * u - 1)) = 1" by simp
    then show False using b by (simp add: cos_arccos)
  qed
  moreover have "0 \<le> arccos (2 * u - 1)" using b by (simp add: arccos_lbound)
  ultimately show "0 < arccos (2 * u - 1)" by simp
  show "arccos (2 * u - 1) \<le> pi" using b by (simp add: arccos_ubound)
qed

lemma star_xyz_height:
  assumes "0 \<le> u2" "u2 < 1"
  shows "snd (snd (star_xyz r u1 u2 u3)) = r * (0.8 + 0.2 * u3) * (2 * u2 - 1)"
  using polar_angle(1)[OF assms] by (simp add: star_xyz_def Let_def)

text \<open>The polar angle of a star of a positive radius is the one the loop computed.\<close>

lemma star_xyz_polar_angle:
  assumes "0 < r" "0 \<le> u2" "u2 < 1" "0 \<le> u3"
  shows "polar_angle_of (star_xyz r u1 u2 u3) = arccos (2 * u2 - 1)"
proof -
  define d where "d = r * (0.8 + 0.2 * u3)"
  have d: "0 < d" using assms(1,4) by (simp add: d_def)
  obtain x y z where xyz: "star_xyz r u1 u2 u3 = (x, y, z)" by (metis prod_cases3)
  then have z: "z = d * cos (arccos (2 * u2 - 1))" by (simp add: star_xyz_def Let_def d_def)
  have "origin_distance (x, y, z) = \<bar>d\<bar>"
    using star_xyz_distance[of r u1 u2 u3] xyz by (simp add: d_def)
  then have "z / origin_distance (x, y, z) = cos (arccos (2 * u2 - 1))"
    using d z by simp
  also have "\<dots> = 2 * u2 - 1" using polar_angle(1)[OF assms(2,3)] .
  finally show ?thesis by (simp add: xyz)
qed

text \<open>
  A band of polar angles is the image of an interval of draws, and the share of the
  sphere's area in the band (half the difference of the cosines of its bounds) is the
  length of the interval.
\<close>

lemma polar_band:
  fixes a b u :: real
  assumes "0 \<le> a" "a \<le> b" "b \<le> 1" "0 \<le> u" "u < 1"
  shows "(cos (arccos (2 * b - 1)) - cos (arccos (2 * a - 1))) / 2 = b - a"
    and "(arccos (2 * b - 1) \<le> arccos (2 * u - 1) \<and> arccos (2 * u - 1) \<le> arccos (2 * a - 1))
           \<longleftrightarrow> (a \<le> u \<and> u \<le> b)"
proof -
  have r: "\<bar>2 * a - 1\<bar> \<le> 1" "\<bar>2 * b - 1\<bar> \<le> 1" "\<bar>2 * u - 1\<bar> \<le> 1"
    using assms by (simp_all add: abs_le_iff)
  have "cos (arccos (2 * a - 1)) = 2 * a - 1" "cos (arccos (2 * b - 1)) = 2 * b - 1"
    using r by (simp_all add: abs_le_iff cos_arccos)
  then show "(cos (arccos (2 * b - 1)) - cos (arccos (2 * a - 1))) / 2 = b - a" by simp
  show "(arccos (2 * b - 1) \<le> arccos (2 * u - 1) \<and> arccos (2 * u - 1) \<le> arccos (2 * a - 1))
           \<longleftrightarrow> (a \<le> u \<and> u \<le> b)"
    using r by (simp add: arccos_le_mono) linarith
qed

text \<open>
  Hence, in every sample, the stars whose polar angle lies in a band are those whose
  second draw lies in the interval of the band: the share of the stars in the band is the
  share of the draws in the interval.
\<close>

lemma polar_band_count:
  fixes a b :: real
  assumes "0 \<le> a" "a \<le> b" "b \<le> 1" "uniform_draws rng"
  shows "card {k. k < N \<and> arccos (2 * b - 1) \<le> arccos (2 * (rng !! (3 * k + 1)) - 1) \<and>
                  arccos (2 * (rng !! (3 * k + 1)) - 1) \<le> arccos (2 * a - 1)}
       = card {k. k < N \<and> a \<le> rng !! (3 * k + 1) \<and> rng !! (3 * k + 1) \<le> b}"
proof -
  have u: "0 \<le> rng !! j \<and> rng !! j < 1" for j
    using assms(4) by (simp add: uniform_draws_def)
  have "(arccos (2 * b - 1) \<le> arccos (2 * (rng !! j) - 1) \<and>
         arccos (2 * (rng !! j) - 1) \<le> arccos (2 * a - 1)) \<longleftrightarrow> (a \<le> rng !! j \<and> rng !! j \<le> b)" for j
    using polar_band(2)[OF assms(1-3), of "rng !! j"] u[of j] by blast
  then show ?thesis by (simp del: snth.simps)
qed

lemma uniform_draws_snth: "uniform_draws rng \<Longrightarrow> 0 \<le> rng !! k \<and> rng !! k < 1"
  by (simp add: uniform_draws_def)

section \<open>What a call returns\<close>

lemma getStarfield_defaults:
  "getStarfield arg s =
     getStarfield
       (starfield_of
          (case arg of None \<Rightarrow> 10 | Some a \<Rightarrow> (case numStars_arg a of None \<Rightarrow> 10 | Some n \<Rightarrow> n))
          (case arg of None \<Rightarrow> 25 | Some a \<Rightarrow> (case radius_arg a of None \<Rightarrow> 25 | Some r \<Rightarrow> r))) s"
  by (simp add: getStarfield_def split: option.splits)

lemma starfield_points_run:
  "starfield_points (starfield_of n r) s =
     (if n < 0 then Inl RangeError else Inr (map (generated_star r (draws s)) [0..<nat n]))"
  by (simp add: starfield_points_def getStarfield_run star_cloud_def buffer_at_def
      starfield_object_def cloud_points_buffer)

lemma sample_points_run: "sample_points r s N = map (generated_star r (draws s)) [0..<N]"
  by (simp add: sample_points_def starfield_points_run)

lemma band_share_draw_share:
  assumes "uniform_draws (draws s)" "0 < r" "0 \<le> a" "a \<le> b" "b \<le> 1"
  shows "band_share (arccos (2 * b - 1)) (arccos (2 * a - 1)) (sample_points r s N)
           = draw_share a b (draws s) N"
proof -
  let ?rng = "draws s"
  have u: "0 \<le> ?rng !! j \<and> ?rng !! j < 1" for j
    using assms(1) by (rule uniform_draws_snth)
  have ang: "polar_angle_of (generated_star r ?rng k) = arccos (2 * (?rng !! (3 * k + 1)) - 1)" for k
    unfolding generated_star_def using u[of "3 * k + 1"] u[of "3 * k + 2"]
    by (intro star_xyz_polar_angle assms(2)) blast+
  have "(\<lambda>pt. arccos (2 * b - 1) \<le> polar_angle_of pt \<and> polar_angle_of pt \<le> arccos (2 * a - 1))
          \<circ> generated_star r ?rng
      = (\<lambda>k. a \<le> ?rng !! (3 * k + 1) \<and> ?rng !! (3 * k + 1) \<le> b)"
  proof
    fix k
    show "((\<lambda>pt. arccos (2 * b - 1) \<le> polar_angle_of pt \<and> polar_angle_of pt \<le> arccos (2 * a - 1))
          \<circ> generated_star r ?rng) k
      = (a \<le> ?rng !! (3 * k + 1) \<and> ?rng !! (3 * k + 1) \<le> b)"
      using polar_band(2)[OF assms(3-5), of "?rng !! (3 * k + 1)"] u[of "3 * k + 1"]
      by (simp only: comp_def ang)
  qed
  then have cnt: "length (filter (\<lambda>pt. arccos (2 * b - 1) \<le> polar_angle_of pt \<and>
          polar_angle_of pt \<le> arccos (2 * a - 1)) (sample_points r s N))
      = length (filter (\<lambda>k. a \<le> ?rng !! (3 * k + 1) \<and> ?rng !! (3 * k + 1) \<le> b) [0..<N])"
    by (simp only: sample_points_run filter_map length_map)
  have emp: "sample_points r s N = [] \<longleftrightarrow> N = 0" and len: "length (sample_points r s N) = N"
    by (simp_all add: sample_points_run)
  show ?thesis by (simp only: band_share_def draw_share_def cnt emp len)
qed

lemma array_set_other: "a \<noteq> b \<Longrightarrow> buffer_at (array_set a k v s) b = buffer_at s b"
  by (simp add: array_set_def buffer_at_def)

lemma star_cloud_array_set_other:
  "attr_array (geometry_position p) \<noteq> a \<Longrightarrow> star_cloud (array_set a k v s) p = star_cloud s p"
  by (simp add: star_cloud_def array_set_other)

subsection \<open>Runs on concrete inputs\<close>

lemma fixture_uniform: "uniform_draws (draws fixture)"
  by (simp add: fixture_def uniform_draws_def)

lemma fixture_draw: "draws fixture !! k = 1 / 2"
  by (simp add: fixture_def)

lemma fixture_run:
  "getStarfield (starfield_of 1 10) fixture =
     Inr (starfield_object 0, \<lparr>draws = sconst (1 / 2), heap = [[- 9, 0, 0]]\<rparr>)"
  by (simp add: fixture_def starfield_object_def getStarfield_def new_Float32Array_def
      for_loop_step for_loop_done star_iteration_def Math_random_def array_set_def star_xyz_def
      Let_def numeral_3_eq_3)

lemma fixture_points: "starfield_points (starfield_of 1 10) fixture = Inr [(- 9, 0, 0)]"
  by (simp add: starfield_points_def fixture_run star_cloud_def starfield_object_def
      buffer_at_def cloud_points_def)

lemma fixture_run_zero_radius:
  "getStarfield (starfield_of 1 0) fixture =
     Inr (starfield_object 0, \<lparr>draws = sconst (1 / 2), heap = [[0, 0, 0]]\<rparr>)"
  by (simp add: fixture_def starfield_object_def getStarfield_def new_Float32Array_def
      for_loop_step for_loop_done star_iteration_def Math_random_def array_set_def star_xyz_def
      Let_def numeral_3_eq_3)

lemma fixture_points_zero_radius: "starfield_points (starfield_of 1 0) fixture = Inr [(0, 0, 0)]"
  by (simp add: starfield_points_def fixture_run_zero_radius star_cloud_def starfield_object_def
      buffer_at_def cloud_points_def)

lemma fixture_run_negative_radius:
  "getStarfield (starfield_of 1 (- 10)) fixture =
     Inr (starfield_object 0, \<lparr>draws = sconst (1 / 2), heap = [[9, 0, 0]]\<rparr>)"
  by (simp add: fixture_def starfield_object_def getStarfield_def new_Float32Array_def
      for_loop_step for_loop_done star_iteration_def Math_random_def array_set_def star_xyz_def
      Let_def numeral_3_eq_3)

lemma fixture_points_negative_radius:
  "starfield_points (starfield_of 1 (- 10)) fixture = Inr [(9, 0, 0)]"
  by (simp add: starfield_points_def fixture_run_negative_radius star_cloud_def starfield_object_def
      buffer_at_def cloud_points_def)

lemma fixture_points_negative_count:
  "starfield_points (starfield_of (- 1) 10) fixture = Inl RangeError"
  by (simp add: starfield_points_def getStarfield_def new_Float32Array_def)

lemma fixture_run_zero_count:
  "getStarfield (starfield_of 0 10) fixture = Inr (starfield_object 0, fixture\<lparr>heap := [[]]\<rparr>)"
  by (simp add: fixture_def starfield_object_def getStarfield_def new_Float32Array_def for_loop_done)

lemma fixture_points_zero_count: "starfield_points (starfield_of 0 10) fixture = Inr []"
  by (simp add: starfield_points_def fixture_run_zero_count star_cloud_def starfield_object_def
      buffer_at_def cloud_points_def)

lemma fixture_star: "generated_star 10 (draws fixture) k = (- 9, 0, 0)"
  unfolding generated_star_def fixture_draw by (simp add: star_xyz_def Let_def)

lemma alternating_snth: "alternating !! j = (if even (j div 3) then 1 / 4 else 3 / 4)"
  by (simp add: alternating_def)

lemma alternating_uniform: "uniform_draws alternating"
  by (auto simp: uniform_draws_def alternating_def stream.set_map)

lemma length_filter_even: "length (filter even [0..<N]) = (N + 1) div 2"
  by (induction N) auto

lemma alternating_draw_share:
  "draw_share 0 (1 / 2) alternating N = (if N = 0 then 0 else real ((N + 1) div 2) / real N)"
proof -
  have "(3 * k + 1) div 3 = k" for k :: nat by presburger
  then have "(\<lambda>k. 0 \<le> alternating !! (3 * k + 1) \<and> alternating !! (3 * k + 1) \<le> 1 / 2) = even"
    by (auto simp only: alternating_snth fun_eq_iff split: if_splits)
  then show ?thesis by (simp only: draw_share_def length_filter_even)
qed

lemma half_share_limit: "(\<lambda>N. if N = 0 then 0 else real ((N + 1) div 2) / real N) \<longlonglongrightarrow> 1 / 2"
proof (rule tendsto_sandwich[where f = "\<lambda>N. 1 / 2" and h = "\<lambda>N. 1 / 2 + 1 / 2 * (1 / real N)"])
  show "\<forall>\<^sub>F N in sequentially. 1 / 2 \<le> (if N = 0 then 0 else real ((N + 1) div 2) / real N)"
  proof (rule eventually_sequentiallyI[of 1])
    fix N :: nat assume N: "1 \<le> N"
    have "real N / 2 \<le> real ((N + 1) div 2)" by linarith
    then show "1 / 2 \<le> (if N = 0 then 0 else real ((N + 1) div 2) / real N)"
      using N by (simp add: field_simps)
  qed
  show "\<forall>\<^sub>F N in sequentially. (if N = 0 then 0 else real ((N + 1) div 2) / real N)
      \<le> 1 / 2 + 1 / 2 * (1 / real N)"
  proof (rule eventually_sequentiallyI[of 1])
    fix N :: nat assume N: "1 \<le> N"
    have "(N + 1) div 2 * 2 \<le> N + 1" by presburger
    then have "real ((N + 1) div 2 * 2) \<le> real (N + 1)" by (rule of_nat_mono)
    then have "real ((N + 1) div 2) \<le> (real N + 1) / 2" by simp
    then show "(if N = 0 then 0 else real ((N + 1) div 2) / real N) \<le> 1 / 2 + 1 / 2 * (1 / real N)"
      using N by (simp add: field_simps)
  qed
  show "(\<lambda>N. 1 / 2 :: real) \<longlonglongrightarrow> 1 / 2" by simp
  have "(\<lambda>N. 1 / 2 + 1 / 2 * (1 / real N)) \<longlonglongrightarrow> 1 / 2 + 1 / 2 * 0"
    by (intro tendsto_intros lim_1_over_n)
  then show "(\<lambda>N. 1 / 2 + 1 / 2 * (1 / real N)) \<longlonglongrightarrow> 1 / 2" by simp
qed

section \<open>The claims\<close>

text \<open>
  C1. For every count that is not negative, \<^verbatim>\<open>getStarfield({numStars: count, radius: r})\<close>
  returns a point cloud of exactly \<open>count\<close> points of three coordinates each, laid out in
  the order of generation: the point in the cells \<open>3 * i\<close>, \<open>3 * i + 1\<close>, \<open>3 * i + 2\<close> of the
  buffer is the star of pass \<open>i\<close> of the loop. A count of 0 gives the empty cloud and a
  count of 1 gives one point.
\<close>

theorem getStarfield_point_count:
  assumes "0 \<le> count"
  shows "\<exists>p s'. getStarfield (starfield_of count r) s = Inr (p, s') \<and>
           attr_itemSize (geometry_position p) = 3 \<and>
           int (length (buffer_at s' (attr_array (geometry_position p)))) = 3 * count \<and>
           int (length (star_cloud s' p)) = count \<and>
           (\<forall>i. int i < count \<longrightarrow>
              (buffer_at s' (attr_array (geometry_position p)) ! (3 * i),
               buffer_at s' (attr_array (geometry_position p)) ! (3 * i + 1),
               buffer_at s' (attr_array (geometry_position p)) ! (3 * i + 2))
                = generated_star r (draws s) i \<and>
              star_cloud s' p ! i = generated_star r (draws s) i)"
proof -
  let ?p = "starfield_object (length (heap s))"
  let ?buf = "starfield_buffer r (draws s) (nat count)"
  let ?s' = "\<lparr>draws = sdrop (3 * nat count) (draws s), heap = heap s @ [?buf]\<rparr>"
  have run: "getStarfield (starfield_of count r) s = Inr (?p, ?s')"
    using assms by (simp add: getStarfield_run)
  have buf: "buffer_at ?s' (attr_array (geometry_position ?p)) = ?buf"
    by (simp add: buffer_at_def starfield_object_def)
  have cloud: "star_cloud ?s' ?p = map (generated_star r (draws s)) [0..<nat count]"
    by (simp add: star_cloud_def buf cloud_points_buffer)
  have len: "int (length ?buf) = 3 * count"
    using assms by (simp add: starfield_buffer_def)
  have cells: "(?buf ! (3 * i), ?buf ! (3 * i + 1), ?buf ! (3 * i + 2)) = generated_star r (draws s) i"
    if "int i < count" for i
  proof -
    from that have i: "i < nat count" by linarith
    have "cloud_points ?buf ! i = (?buf ! (3 * i), ?buf ! (3 * i + 1), ?buf ! (3 * i + 2))"
      using i by (simp add: cloud_points_def starfield_buffer_def)
    then show ?thesis using i by (simp add: cloud_points_buffer)
  qed
  have pts: "star_cloud ?s' ?p ! i = generated_star r (draws s) i" if "int i < count" for i
  proof -
    from that have "i < nat count" by linarith
    then show ?thesis by (simp add: cloud)
  qed
  have item: "attr_itemSize (geometry_position ?p) = 3" by (simp add: starfield_object_def)
  have cnt: "int (length (star_cloud ?s' ?p)) = count" using assms by (simp add: cloud)
  have len': "int (length (buffer_at ?s' (attr_array (geometry_position ?p)))) = 3 * count"
    using len by (simp only: buf)
  have cells': "(buffer_at ?s' (attr_array (geometry_position ?p)) ! (3 * i),
        buffer_at ?s' (attr_array (geometry_position ?p)) ! (3 * i + 1),
        buffer_at ?s' (attr_array (geometry_position ?p)) ! (3 * i + 2))
         = generated_star r (draws s) i" if "int i < count" for i
    using cells[OF that] by (simp only: buf)
  show ?thesis
  proof (intro exI[of _ ?p] exI[of _ ?s'] conjI allI impI)
    show "getStarfield (starfield_of count r) s = Inr (?p, ?s')" by (rule run)
    show "attr_itemSize (geometry_position ?p) = 3" by (rule item)
    show "int (length (buffer_at ?s' (attr_array (geometry_position ?p)))) = 3 * count"
      by (rule len')
    show "int (length (star_cloud ?s' ?p)) = count" by (rule cnt)
  next
    fix i assume "int i < count"
    then show "(buffer_at ?s' (attr_array (geometry_position ?p)) ! (3 * i),
        buffer_at ?s' (attr_array (geometry_position ?p)) ! (3 * i + 1),
        buffer_at ?s' (attr_array (geometry_position ?p)) ! (3 * i + 2))
         = generated_star r (draws s) i"
      by (rule cells')
  next
    fix i assume "int i < count"
    then show "star_cloud ?s' ?p ! i = generated_star r (draws s) i" by (rule pts)
  qed
qed

theorem getStarfield_point_count_witness:
  "(\<exists>p s'. getStarfield (starfield_of 0 10) fixture = Inr (p, s') \<and> star_cloud s' p = []) \<and>
   (\<exists>p s'. getStarfield (starfield_of 1 10) fixture = Inr (p, s') \<and>
      star_cloud s' p = [(- 9, 0, 0)])"
proof
  from getStarfield_point_count[of 0 10 fixture]
  obtain p s' where "getStarfield (starfield_of 0 10) fixture = Inr (p, s')"
    and "int (length (star_cloud s' p)) = 0"
    by auto
  then show "\<exists>p s'. getStarfield (starfield_of 0 10) fixture = Inr (p, s') \<and> star_cloud s' p = []"
    by auto
next
  from getStarfield_point_count[of 1 10 fixture]
  obtain p s' where run: "getStarfield (starfield_of 1 10) fixture = Inr (p, s')"
    and len: "int (length (star_cloud s' p)) = 1"
    and pt: "\<And>i. int i < 1 \<Longrightarrow> star_cloud s' p ! i = generated_star 10 (draws fixture) i"
    by auto
  from len have l1: "length (star_cloud s' p) = 1" by simp
  from pt[of 0] have "star_cloud s' p ! 0 = (- 9, 0, 0)" by (simp add: fixture_star)
  with l1 have "star_cloud s' p = [(- 9, 0, 0)]"
    by (cases "star_cloud s' p") auto
  with run show "\<exists>p s'. getStarfield (starfield_of 1 10) fixture = Inr (p, s') \<and>
      star_cloud s' p = [(- 9, 0, 0)]"
    by blast
qed

text \<open>
  C2. For every radius \<open>R > 0\<close> and every point of the cloud that \<^verbatim>\<open>getStarfield\<close>
  returns, the distance of the point from the origin lies in \<open>[0.8 * R, 1.0 * R]\<close>, both
  bounds included. The draws are those of \<^verbatim>\<open>Math.random\<close>, in \<open>[0, 1)\<close>.
\<close>

theorem getStarfield_shell:
  assumes "uniform_draws (draws s)" and "0 < R"
    and "starfield_points (starfield_of n R) s = Inr pts" and "pt \<in> set pts"
  shows "0.8 * R \<le> origin_distance pt \<and> origin_distance pt \<le> 1.0 * R"
proof -
  from assms(3) have "pts = map (generated_star R (draws s)) [0..<nat n]"
    by (simp add: starfield_points_run split: if_splits)
  with assms(4) obtain k where pt: "pt = generated_star R (draws s) k" by auto
  let ?v = "draws s !! (3 * k + 2)"
  have v: "0 \<le> ?v" "?v < 1" using uniform_draws_snth[OF assms(1), of "3 * k + 2"] by blast+
  have "origin_distance pt = \<bar>R * (0.8 + 0.2 * ?v)\<bar>"
    by (simp add: pt generated_star_def star_xyz_distance)
  with jitter_band(1,2)[OF v, of R] assms(2) show ?thesis by simp
qed

theorem getStarfield_shell_witness:
  "uniform_draws (draws fixture) \<and>
   starfield_points (starfield_of 1 10) fixture = Inr [(- 9, 0, 0)] \<and>
   0.8 * 10 \<le> origin_distance (- 9, 0, 0) \<and> origin_distance (- 9, 0, 0) \<le> 1.0 * 10"
  using getStarfield_shell[OF fixture_uniform _ fixture_points, of "(- 9, 0, 0)"]
    fixture_uniform fixture_points
  by simp

text \<open>
  C3. The star of pass \<open>i\<close> is computed from three draws taken in the order azimuth,
  polar angle, depth (the draws \<open>3 * i\<close>, \<open>3 * i + 1\<close>, \<open>3 * i + 2\<close> of the source at the
  call), each in \<open>[0, 1)\<close>: \<open>theta = u_theta * 2 * pi\<close>, \<open>phi = arccos (2 * u_phi - 1)\<close>,
  \<open>d = radius * (0.8 + 0.2 * u_jit)\<close>, and the cells \<open>3 * i\<close>, \<open>3 * i + 1\<close>, \<open>3 * i + 2\<close> of
  the buffer hold \<open>d * sin phi * cos theta\<close>, \<open>d * sin phi * sin theta\<close> and
  \<open>d * cos phi\<close>. The call leaves the source three draws per star further on.
\<close>

theorem getStarfield_stored_triple:
  assumes "uniform_draws (draws s)" and "int i < n"
  shows "\<exists>p s'. getStarfield (starfield_of n radius) s = Inr (p, s') \<and>
           draws s' = sdrop (3 * nat n) (draws s) \<and>
           (let u_theta = draws s !! (3 * i);
                u_phi = draws s !! (3 * i + 1);
                u_jit = draws s !! (3 * i + 2);
                theta = u_theta * 2 * pi;
                phi = arccos (2 * u_phi - 1);
                d = radius * (0.8 + 0.2 * u_jit);
                buf = buffer_at s' (attr_array (geometry_position p))
            in 0 \<le> u_theta \<and> u_theta < 1 \<and> 0 \<le> u_phi \<and> u_phi < 1 \<and> 0 \<le> u_jit \<and> u_jit < 1 \<and>
               buf ! (3 * i) = d * sin phi * cos theta \<and>
               buf ! (3 * i + 1) = d * sin phi * sin theta \<and>
               buf ! (3 * i + 2) = d * cos phi)"
proof -
  let ?p = "starfield_object (length (heap s))"
  let ?buf = "starfield_buffer radius (draws s) (nat n)"
  let ?s' = "\<lparr>draws = sdrop (3 * nat n) (draws s), heap = heap s @ [?buf]\<rparr>"
  from assms(2) have n: "\<not> n < 0" and i: "i < nat n" by linarith+
  have run: "getStarfield (starfield_of n radius) s = Inr (?p, ?s')"
    using n by (simp add: getStarfield_run)
  have buf: "buffer_at ?s' (attr_array (geometry_position ?p)) = ?buf"
    by (simp add: buffer_at_def starfield_object_def)
  have "cloud_points ?buf ! i = (?buf ! (3 * i), ?buf ! (3 * i + 1), ?buf ! (3 * i + 2))"
    using i by (simp add: cloud_points_def starfield_buffer_def)
  then have cells: "(?buf ! (3 * i), ?buf ! (3 * i + 1), ?buf ! (3 * i + 2))
      = star_xyz radius (draws s !! (3 * i)) (draws s !! (3 * i + 1)) (draws s !! (3 * i + 2))"
    using i by (simp add: cloud_points_buffer generated_star_def)
  have u: "0 \<le> draws s !! k \<and> draws s !! k < 1" for k
    using assms(1) by (rule uniform_draws_snth)
  show ?thesis
  proof (intro exI[of _ ?p] exI[of _ ?s'] conjI)
    show "getStarfield (starfield_of n radius) s = Inr (?p, ?s')" by (rule run)
    show "draws ?s' = sdrop (3 * nat n) (draws s)" by simp
    show "let u_theta = draws s !! (3 * i);
              u_phi = draws s !! (3 * i + 1);
              u_jit = draws s !! (3 * i + 2);
              theta = u_theta * 2 * pi;
              phi = arccos (2 * u_phi - 1);
              d = radius * (0.8 + 0.2 * u_jit);
              buf = buffer_at ?s' (attr_array (geometry_position ?p))
          in 0 \<le> u_theta \<and> u_theta < 1 \<and> 0 \<le> u_phi \<and> u_phi < 1 \<and> 0 \<le> u_jit \<and> u_jit < 1 \<and>
             buf ! (3 * i) = d * sin phi * cos theta \<and>
             buf ! (3 * i + 1) = d * sin phi * sin theta \<and>
             buf ! (3 * i + 2) = d * cos phi"
      unfolding buf Let_def using cells u by (simp add: star_xyz_def Let_def del: snth.simps)
  qed
qed

theorem getStarfield_stored_triple_witness:
  "\<exists>p s'. getStarfield (starfield_of 1 10) fixture = Inr (p, s') \<and>
      buffer_at s' (attr_array (geometry_position p)) ! 0 = - 9 \<and>
      buffer_at s' (attr_array (geometry_position p)) ! 1 = 0 \<and>
      buffer_at s' (attr_array (geometry_position p)) ! 2 = 0"
  using getStarfield_stored_triple[OF fixture_uniform, of 0 1 10]
  by (auto simp add: Let_def fixture_draw numeral_2_eq_2 simp del: snth.simps)

text \<open>
  C4. The polar angle of every star is \<open>arccos (2 * u - 1)\<close> for the second draw \<open>u\<close> of
  the star, so that its cosine is \<open>2 * u - 1\<close>. The band of the polar angles from
  \<open>arccos (2 * b - 1)\<close> to \<open>arccos (2 * a - 1)\<close> answers to the interval \<open>[a, b]\<close> of the
  draw, and its share of the area of the sphere is the length \<open>b - a\<close> of the interval:
  bands of equal area answer to intervals of equal length. When the second draws are
  spread evenly over the interval (their share in \<open>[a, b]\<close> among the first \<open>N\<close> stars tends
  to \<open>b - a\<close>), the share of the points of the sample of \<open>N\<close> stars in the band tends to
  the band's share of the area. The radius is positive and the draws lie in \<open>[0, 1)\<close>.
\<close>

theorem polar_transform_equal_area:
  assumes "uniform_draws (draws s)" and "0 < r" and "0 \<le> a" and "a \<le> b" and "b \<le> 1"
    and "(\<lambda>N. draw_share a b (draws s) N) \<longlonglongrightarrow> b - a"
  shows "(\<forall>N i. i < N \<longrightarrow>
            polar_angle_of (sample_points r s N ! i) = arccos (2 * (draws s !! (3 * i + 1)) - 1) \<and>
            cos (polar_angle_of (sample_points r s N ! i)) = 2 * (draws s !! (3 * i + 1)) - 1) \<and>
         band_area_fraction (arccos (2 * b - 1)) (arccos (2 * a - 1)) = b - a \<and>
         (\<lambda>N. band_share (arccos (2 * b - 1)) (arccos (2 * a - 1)) (sample_points r s N))
            \<longlonglongrightarrow> band_area_fraction (arccos (2 * b - 1)) (arccos (2 * a - 1))"
proof (intro conjI allI impI)
  fix N i :: nat assume i: "i < N"
  let ?u = "draws s !! (3 * i + 1)"
  have u: "0 \<le> draws s !! j \<and> draws s !! j < 1" for j
    using assms(1) by (rule uniform_draws_snth)
  have "sample_points r s N ! i = generated_star r (draws s) i"
    using i by (simp add: sample_points_run)
  then show ang: "polar_angle_of (sample_points r s N ! i) = arccos (2 * ?u - 1)"
    unfolding generated_star_def using u[of "3 * i + 1"] u[of "3 * i + 2"] assms(2)
    by (simp only: star_xyz_polar_angle)
  show "cos (polar_angle_of (sample_points r s N ! i)) = 2 * ?u - 1"
    unfolding ang using u[of "3 * i + 1"] by (intro polar_angle(1)) blast+
next
  have "0 \<le> (0::real)" "(0::real) < 1" by simp_all
  from polar_band(1)[OF assms(3-5) this]
  show area: "band_area_fraction (arccos (2 * b - 1)) (arccos (2 * a - 1)) = b - a"
    by (simp only: band_area_fraction_def)
  show "(\<lambda>N. band_share (arccos (2 * b - 1)) (arccos (2 * a - 1)) (sample_points r s N))
      \<longlonglongrightarrow> band_area_fraction (arccos (2 * b - 1)) (arccos (2 * a - 1))"
    unfolding area band_share_draw_share[OF assms(1-5)] by (rule assms(6))
qed

theorem polar_transform_equal_area_witness:
  "band_area_fraction (pi / 2) pi = 1 / 2 \<and>
   (\<lambda>N. band_share (pi / 2) pi (sample_points 10 \<lparr>draws = alternating, heap = []\<rparr> N))
      \<longlonglongrightarrow> 1 / 2"
proof -
  let ?s = "\<lparr>draws = alternating, heap = []\<rparr>"
  have u: "uniform_draws (draws ?s)" by (simp add: alternating_uniform)
  have l: "(\<lambda>N. draw_share 0 (1 / 2) (draws ?s) N) \<longlonglongrightarrow> 1 / 2 - 0"
    using half_share_limit by (simp add: alternating_draw_share)
  from polar_transform_equal_area[OF u _ _ _ _ l, of 10]
  have "band_area_fraction (arccos (2 * (1 / 2) - 1)) (arccos (2 * 0 - 1)) = 1 / 2 - 0"
    and "(\<lambda>N. band_share (arccos (2 * (1 / 2) - 1)) (arccos (2 * 0 - 1)) (sample_points 10 ?s N))
      \<longlonglongrightarrow> band_area_fraction (arccos (2 * (1 / 2) - 1)) (arccos (2 * 0 - 1))"
    by simp_all
  moreover have "arccos (2 * (1 / 2) - 1) = pi / 2" "arccos (2 * 0 - 1) = pi" by simp_all
  ultimately have a: "band_area_fraction (pi / 2) pi = 1 / 2"
    and b: "(\<lambda>N. band_share (pi / 2) pi (sample_points 10 ?s N))
      \<longlonglongrightarrow> band_area_fraction (pi / 2) pi"
    by simp_all
  from b have "(\<lambda>N. band_share (pi / 2) pi (sample_points 10 ?s N)) \<longlonglongrightarrow> 1 / 2"
    unfolding a .
  with a show ?thesis by blast
qed

text \<open>
  C5. With the random source an explicit stream of draws, \<^verbatim>\<open>getStarfield\<close> is
  deterministic: two calls with the same argument, made in two states whose sources
  hold the same stream (whatever else the states hold), return the same sequence of
  points, or fail alike.
\<close>

theorem getStarfield_deterministic:
  assumes "draws s1 = draws s2"
  shows "starfield_points arg s1 = starfield_points arg s2"
proof -
  define n where "n = (case arg of None \<Rightarrow> 10
      | Some a \<Rightarrow> (case numStars_arg a of None \<Rightarrow> (10::int) | Some n \<Rightarrow> n))"
  define r where "r = (case arg of None \<Rightarrow> 25
      | Some a \<Rightarrow> (case radius_arg a of None \<Rightarrow> (25::real) | Some r \<Rightarrow> r))"
  have "starfield_points arg s = starfield_points (starfield_of n r) s" for s
    unfolding starfield_points_def n_def r_def by (subst getStarfield_defaults) simp
  then show ?thesis using assms by (simp add: starfield_points_run)
qed

theorem getStarfield_deterministic_witness:
  "draws fixture = draws (fixture\<lparr>heap := [[1, 2, 3]]\<rparr>) \<and>
   fixture \<noteq> fixture\<lparr>heap := [[1, 2, 3]]\<rparr> \<and>
   starfield_points (starfield_of 1 10) (fixture\<lparr>heap := [[1, 2, 3]]\<rparr>) = Inr [(- 9, 0, 0)]"
  using getStarfield_deterministic[of fixture "fixture\<lparr>heap := [[1, 2, 3]]\<rparr>" "starfield_of 1 10"]
    fixture_points
  by (simp add: fixture_def)

text \<open>
  C6, as the specification states it: for a count or a radius that is not positive,
  \<^verbatim>\<open>getStarfield\<close> signals no error and returns an empty or non-finite result. It
  fails twice. With a count of 1 and the radius 0 the call returns one point, the
  origin: the result is not empty, and its cells are the number 0, in the embedding and
  in floating point alike (every product has the factor 0). With the count \<open>-1\<close> the
  constructor of the typed array throws a \<^verbatim>\<open>RangeError\<close>.
\<close>

theorem getStarfield_degenerate_counterexample:
  "starfield_points (starfield_of 1 0) fixture = Inr [(0, 0, 0)] \<and>
   starfield_points (starfield_of 1 0) fixture \<noteq> Inr [] \<and>
   starfield_points (starfield_of (- 1) 10) fixture = Inl RangeError"
  by (simp add: fixture_points_zero_radius fixture_points_negative_count)

text \<open>
  C6, amended. \<^verbatim>\<open>getStarfield\<close> has no check of its own on the count or the radius. A
  negative count is rejected all the same: the constructor of the typed array throws a
  \<^verbatim>\<open>RangeError\<close>, whatever the radius. A count of 0 gives the empty cloud. A positive
  count gives that many points for every radius, so the result is then not empty; with
  the radius 0 every one of them is the origin, a result that is neither empty nor
  non-finite. Of the points of a negative radius nothing but their number is stated.
\<close>

theorem getStarfield_nonpositive_inputs:
  "(n < 0 \<longrightarrow> starfield_points (starfield_of n r) s = Inl RangeError) \<and>
   (n = 0 \<longrightarrow> starfield_points (starfield_of n r) s = Inr []) \<and>
   (0 < n \<longrightarrow> (\<exists>pts. starfield_points (starfield_of n r) s = Inr pts \<and>
                   int (length pts) = n \<and> pts \<noteq> [] \<and>
                   (r = 0 \<longrightarrow> (\<forall>pt \<in> set pts. pt = (0, 0, 0)))))"
proof (intro conjI impI)
  assume "n < 0"
  then show "starfield_points (starfield_of n r) s = Inl RangeError"
    by (simp add: starfield_points_run)
next
  assume "n = 0"
  then show "starfield_points (starfield_of n r) s = Inr []"
    by (simp add: starfield_points_run)
next
  assume n: "0 < n"
  let ?pts = "map (generated_star r (draws s)) [0..<nat n]"
  have run: "starfield_points (starfield_of n r) s = Inr ?pts"
    using n by (simp add: starfield_points_run)
  have len: "int (length ?pts) = n" using n by simp
  have ne: "?pts \<noteq> []" using n by simp
  have zero: "r = 0 \<longrightarrow> (\<forall>pt \<in> set ?pts. pt = (0, 0, 0))"
    by (auto simp: generated_star_def star_xyz_zero)
  from run len ne zero
  show "\<exists>pts. starfield_points (starfield_of n r) s = Inr pts \<and>
      int (length pts) = n \<and> pts \<noteq> [] \<and> (r = 0 \<longrightarrow> (\<forall>pt \<in> set pts. pt = (0, 0, 0)))"
    by blast
qed

theorem getStarfield_nonpositive_inputs_witness:
  "starfield_points (starfield_of (- 2) 5) fixture = Inl RangeError \<and>
   starfield_points (starfield_of 0 (- 5)) fixture = Inr [] \<and>
   starfield_points (starfield_of 2 0) fixture = Inr [(0, 0, 0), (0, 0, 0)] \<and>
   (\<exists>pts. starfield_points (starfield_of 3 (- 10)) fixture = Inr pts \<and> int (length pts) = 3)"
proof (intro conjI)
  show "starfield_points (starfield_of (- 2) 5) fixture = Inl RangeError"
    using getStarfield_nonpositive_inputs[of "- 2" 5 fixture] by simp
  show "starfield_points (starfield_of 0 (- 5)) fixture = Inr []"
    using getStarfield_nonpositive_inputs[of 0 "- 5" fixture] by simp
  from getStarfield_nonpositive_inputs[of 2 0 fixture]
  obtain pts where run: "starfield_points (starfield_of 2 0) fixture = Inr pts"
    and len: "int (length pts) = 2" and org: "\<forall>pt \<in> set pts. pt = (0, 0, 0)"
    by auto
  from len obtain p q where "pts = [p, q]"
    by (cases pts; cases "tl pts") auto
  with org have "pts = [(0, 0, 0), (0, 0, 0)]" by simp
  with run show "starfield_points (starfield_of 2 0) fixture = Inr [(0, 0, 0), (0, 0, 0)]" by simp
  show "\<exists>pts. starfield_points (starfield_of 3 (- 10)) fixture = Inr pts \<and> int (length pts) = 3"
    using getStarfield_nonpositive_inputs[of 3 "- 10" fixture] by auto
qed

text \<open>
  C7. A call of \<^verbatim>\<open>getStarfield\<close> with no argument object, or with a field left out,
  behaves as the call with \<open>numStars = 10\<close> and \<open>radius = 25\<close> in the places left out.
  The call with no argument returns ten stars of the radius 25.
\<close>

theorem getStarfield_default_parameters:
  "getStarfield None s = getStarfield (starfield_of 10 25) s \<and>
   getStarfield (Some \<lparr>numStars_arg = None, radius_arg = None\<rparr>) s
     = getStarfield (starfield_of 10 25) s \<and>
   getStarfield (Some \<lparr>numStars_arg = None, radius_arg = Some r\<rparr>) s
     = getStarfield (starfield_of 10 r) s \<and>
   getStarfield (Some \<lparr>numStars_arg = Some n, radius_arg = None\<rparr>) s
     = getStarfield (starfield_of n 25) s \<and>
   starfield_points None s = Inr (map (generated_star 25 (draws s)) [0..<10])"
proof (intro conjI)
  show none: "getStarfield None s = getStarfield (starfield_of 10 25) s"
    by (simp add: getStarfield_def split: sum.splits prod.splits)
  show "getStarfield (Some \<lparr>numStars_arg = None, radius_arg = None\<rparr>) s
      = getStarfield (starfield_of 10 25) s"
    by (simp add: getStarfield_def split: sum.splits prod.splits)
  show "getStarfield (Some \<lparr>numStars_arg = None, radius_arg = Some r\<rparr>) s
      = getStarfield (starfield_of 10 r) s"
    by (simp add: getStarfield_def split: sum.splits prod.splits)
  show "getStarfield (Some \<lparr>numStars_arg = Some n, radius_arg = None\<rparr>) s
      = getStarfield (starfield_of n 25) s"
    by (simp add: getStarfield_def split: sum.splits prod.splits)
  have "starfield_points None s = starfield_points (starfield_of 10 25) s"
    unfolding starfield_points_def by (simp only: none)
  then show "starfield_points None s = Inr (map (generated_star 25 (draws s)) [0..<10])"
    by (simp add: starfield_points_run)
qed

text \<open>
  C8. At startup the program calls the generator three times, for 500 stars at each of
  the radii 500, 750 and 1000, and puts the three layers into the group of stars. Each
  layer has a buffer of its own (three new, pairwise distinct buffers, after those the
  heap held before, which are left as they were), each layer holds 500 points, and the
  points of a layer are those of its own radius and its own 1500 draws of the source: the
  only thing one call hands to the next is the position reached in the source. No two
  layers share cells: a write into the buffer of one layer leaves the points of the
  other two as they are.
\<close>

theorem main_stars_layers:
  "\<exists>low med high s'.
     main_stars s = Inr ([low, med, high], s') \<and>
     star_cloud s' low = map (generated_star 500 (draws s)) [0..<500] \<and>
     star_cloud s' med = map (generated_star 750 (sdrop 1500 (draws s))) [0..<500] \<and>
     star_cloud s' high = map (generated_star 1000 (sdrop 3000 (draws s))) [0..<500] \<and>
     map (attr_array \<circ> geometry_position) [low, med, high]
       = [length (heap s), length (heap s) + 1, length (heap s) + 2] \<and>
     distinct (map (attr_array \<circ> geometry_position) [low, med, high]) \<and>
     length (heap s') = length (heap s) + 3 \<and>
     take (length (heap s)) (heap s') = heap s \<and>
     draws s' = sdrop 4500 (draws s) \<and>
     (\<forall>k v. map (star_cloud (array_set (attr_array (geometry_position low)) k v s')) [med, high]
              = map (star_cloud s') [med, high]) \<and>
     (\<forall>k v. map (star_cloud (array_set (attr_array (geometry_position med)) k v s')) [low, high]
              = map (star_cloud s') [low, high]) \<and>
     (\<forall>k v. map (star_cloud (array_set (attr_array (geometry_position high)) k v s')) [low, med]
              = map (star_cloud s') [low, med])"
proof -
  let ?a = "length (heap s)"
  let ?b1 = "starfield_buffer 500 (draws s) 500"
  let ?b2 = "starfield_buffer 750 (sdrop 1500 (draws s)) 500"
  let ?b3 = "starfield_buffer 1000 (sdrop 3000 (draws s)) 500"
  let ?s' = "\<lparr>draws = sdrop 4500 (draws s), heap = heap s @ [?b1, ?b2, ?b3]\<rparr>"
  have run: "main_stars s =
      Inr ([starfield_object ?a, starfield_object (?a + 1), starfield_object (?a + 2)], ?s')"
    by (simp add: main_stars_def getStarfield_run)
  have b: "buffer_at ?s' ?a = ?b1" "buffer_at ?s' (?a + 1) = ?b2" "buffer_at ?s' (?a + 2) = ?b3"
    by (simp_all add: buffer_at_def nth_append)
  have c: "star_cloud ?s' (starfield_object ?a) = map (generated_star 500 (draws s)) [0..<500]"
    "star_cloud ?s' (starfield_object (?a + 1))
       = map (generated_star 750 (sdrop 1500 (draws s))) [0..<500]"
    "star_cloud ?s' (starfield_object (?a + 2))
       = map (generated_star 1000 (sdrop 3000 (draws s))) [0..<500]"
    unfolding star_cloud_def by (simp_all add: starfield_object_def b[simplified] cloud_points_buffer)
  show ?thesis
  proof (rule exI[of _ "starfield_object ?a"], rule exI[of _ "starfield_object (?a + 1)"],
      rule exI[of _ "starfield_object (?a + 2)"], rule exI[of _ ?s'], intro conjI)
    show "main_stars s =
      Inr ([starfield_object ?a, starfield_object (?a + 1), starfield_object (?a + 2)], ?s')"
      by (rule run)
    show "star_cloud ?s' (starfield_object ?a) = map (generated_star 500 (draws s)) [0..<500]"
      by (rule c(1))
    show "star_cloud ?s' (starfield_object (?a + 1))
        = map (generated_star 750 (sdrop 1500 (draws s))) [0..<500]"
      by (rule c(2))
    show "star_cloud ?s' (starfield_object (?a + 2))
        = map (generated_star 1000 (sdrop 3000 (draws s))) [0..<500]"
      by (rule c(3))
    show "map (attr_array \<circ> geometry_position)
        [starfield_object ?a, starfield_object (?a + 1), starfield_object (?a + 2)]
        = [?a, ?a + 1, ?a + 2]"
      by (simp add: starfield_object_def)
    show "distinct (map (attr_array \<circ> geometry_position)
        [starfield_object ?a, starfield_object (?a + 1), starfield_object (?a + 2)])"
      by (simp add: starfield_object_def)
    show "length (heap ?s') = ?a + 3" by simp
    show "take ?a (heap ?s') = heap s" by simp
    show "draws ?s' = sdrop 4500 (draws s)" by simp
    show "\<forall>k v. map (star_cloud (array_set (attr_array (geometry_position (starfield_object ?a))) k v ?s'))
          [starfield_object (?a + 1), starfield_object (?a + 2)]
        = map (star_cloud ?s') [starfield_object (?a + 1), starfield_object (?a + 2)]"
      by (simp add: star_cloud_array_set_other starfield_object_def)
    show "\<forall>k v. map (star_cloud (array_set (attr_array (geometry_position (starfield_object (?a + 1)))) k v ?s'))
          [starfield_object ?a, starfield_object (?a + 2)]
        = map (star_cloud ?s') [starfield_object ?a, starfield_object (?a + 2)]"
      by (simp add: star_cloud_array_set_other starfield_object_def)
    show "\<forall>k v. map (star_cloud (array_set (attr_array (geometry_position (starfield_object (?a + 2)))) k v ?s'))
          [starfield_object ?a, starfield_object (?a + 1)]
        = map (star_cloud ?s') [starfield_object ?a, starfield_object (?a + 1)]"
      by (simp add: star_cloud_array_set_other starfield_object_def)
  qed
qed

text \<open>
  C9. In exact real arithmetic the distance of a generated point from the origin is
  the absolute value of the drawn distance \<open>d = radius * (0.8 + 0.2 * v)\<close>, where \<open>v\<close> is
  the third draw of the point; for a radius that is not negative it is \<open>d\<close> itself, not
  merely a value of the shell band.
\<close>

theorem getStarfield_exact_distance:
  assumes "uniform_draws (draws s)"
    and "starfield_points (starfield_of n radius) s = Inr pts" and "i < length pts"
  shows "origin_distance (pts ! i) = \<bar>radius * (0.8 + 0.2 * (draws s !! (3 * i + 2)))\<bar> \<and>
         (0 \<le> radius \<longrightarrow>
            origin_distance (pts ! i) = radius * (0.8 + 0.2 * (draws s !! (3 * i + 2))))"
proof -
  let ?v = "draws s !! (3 * i + 2)"
  from assms(2) have pts: "pts = map (generated_star radius (draws s)) [0..<nat n]"
    by (simp add: starfield_points_run split: if_splits)
  with assms(3) have "pts ! i = generated_star radius (draws s) i" by simp
  then have d: "origin_distance (pts ! i) = \<bar>radius * (0.8 + 0.2 * ?v)\<bar>"
    by (simp add: generated_star_def star_xyz_distance)
  have "0 \<le> ?v" using uniform_draws_snth[OF assms(1), of "3 * i + 2"] by blast
  then have "0 \<le> radius * (0.8 + 0.2 * ?v)" if "0 \<le> radius" using that by simp
  with d show ?thesis by simp
qed

theorem getStarfield_exact_distance_witness:
  "uniform_draws (draws fixture) \<and>
   starfield_points (starfield_of 1 10) fixture = Inr [(- 9, 0, 0)] \<and>
   origin_distance ([(- 9, 0, 0)] ! 0) = 10 * (0.8 + 0.2 * (1 / 2))"
  using getStarfield_exact_distance[OF fixture_uniform fixture_points, of 0]
    fixture_uniform fixture_points
  by (simp add: fixture_draw)

text \<open>
  C10. \<^verbatim>\<open>getStarfield\<close> applies no check to the radius. For a count that is not
  negative the call returns that many points without an error, whatever the radius.
  With the radius 0 every point is the origin. With a radius other than 0 the distance
  of every point from the origin lies in \<open>[0.8 * |radius|, |radius|)\<close>, so the shell
  holds with \<open>|radius|\<close>; and the call with the opposite radius returns the same points
  reflected through the origin.
\<close>

theorem getStarfield_unchecked_radius:
  assumes "uniform_draws (draws s)" and "0 \<le> n"
  shows "\<exists>pts. starfield_points (starfield_of n r) s = Inr pts \<and>
           int (length pts) = n \<and>
           (r = 0 \<longrightarrow> (\<forall>pt \<in> set pts. pt = (0, 0, 0))) \<and>
           (r \<noteq> 0 \<longrightarrow> (\<forall>pt \<in> set pts.
              0.8 * \<bar>r\<bar> \<le> origin_distance pt \<and> origin_distance pt < \<bar>r\<bar>)) \<and>
           starfield_points (starfield_of n (- r)) s = Inr (map mirror pts)"
proof -
  let ?pts = "map (generated_star r (draws s)) [0..<nat n]"
  have run: "starfield_points (starfield_of n r) s = Inr ?pts"
    using assms(2) by (simp add: starfield_points_run)
  have len: "int (length ?pts) = n" using assms(2) by simp
  have zero: "pt = (0, 0, 0)" if "r = 0" "pt \<in> set ?pts" for pt
    using that by (auto simp: generated_star_def star_xyz_zero)
  have band: "0.8 * \<bar>r\<bar> \<le> origin_distance pt \<and> origin_distance pt < \<bar>r\<bar>"
    if "r \<noteq> 0" "pt \<in> set ?pts" for pt
  proof -
    from that(2) obtain k where pt: "pt = generated_star r (draws s) k" by auto
    let ?v = "draws s !! (3 * k + 2)"
    have v: "0 \<le> ?v" "?v < 1" using uniform_draws_snth[OF assms(1), of "3 * k + 2"] by blast+
    have "origin_distance pt = \<bar>r * (0.8 + 0.2 * ?v)\<bar>"
      by (simp add: pt generated_star_def star_xyz_distance)
    with jitter_band(1)[OF v, of r] jitter_band(3)[OF v that(1)] show ?thesis by simp
  qed
  have "starfield_points (starfield_of n (- r)) s
      = Inr (map (generated_star (- r) (draws s)) [0..<nat n])"
    using assms(2) by (simp add: starfield_points_run)
  also have "map (generated_star (- r) (draws s)) [0..<nat n] = map mirror ?pts"
    by (simp add: generated_star_def star_xyz_mirror)
  finally have mir: "starfield_points (starfield_of n (- r)) s = Inr (map mirror ?pts)" .
  show ?thesis
  proof (intro exI[of _ ?pts] conjI impI ballI)
    show "starfield_points (starfield_of n r) s = Inr ?pts" by (rule run)
    show "int (length ?pts) = n" by (rule len)
    show "starfield_points (starfield_of n (- r)) s = Inr (map mirror ?pts)" by (rule mir)
  next
    fix pt assume "r = 0" "pt \<in> set ?pts"
    then show "pt = (0, 0, 0)" by (rule zero)
  next
    fix pt assume "r \<noteq> 0" "pt \<in> set ?pts"
    then show "0.8 * \<bar>r\<bar> \<le> origin_distance pt" "origin_distance pt < \<bar>r\<bar>"
      using band by blast+
  qed
qed

theorem getStarfield_unchecked_radius_witness:
  "starfield_points (starfield_of 1 0) fixture = Inr [(0, 0, 0)] \<and>
   starfield_points (starfield_of 1 (- 10)) fixture = Inr [(9, 0, 0)] \<and>
   0.8 * \<bar>- 10\<bar> \<le> origin_distance (9, 0, 0) \<and> origin_distance (9, 0, 0) < \<bar>- 10 :: real\<bar> \<and>
   starfield_points (starfield_of 1 10) fixture = Inr (map mirror [(9, 0, 0)])"
  using getStarfield_unchecked_radius[OF fixture_uniform, of 1 0]
    getStarfield_unchecked_radius[OF fixture_uniform, of 1 "- 10"]
    fixture_points_zero_radius fixture_points_negative_radius
  by auto

end
